theory Spec2Isabelle
  imports Main "HOL-Library.AList"
begin

section \<open>Strings\<close>

text \<open>
  The text the program itself writes (names, selectors, URL templates, messages) and the
  text whose content the program never looks into (error messages, markup, item fields)
  is of type \<^typ>\<open>string\<close>. A query comes from the user and is any JavaScript string: a
  list of UTF-16 code units, each a number from 0 to 65535, well-formed or not.
\<close>

type_synonym js_string = "int list"

text \<open>The code units of a literal of the source.\<close>

definition utf16 :: "string \<Rightarrow> js_string" where
  "utf16 s = map of_char s"

text \<open>
  \<^verbatim>\<open>toLowerCase\<close> on the ASCII letters and on the two code units beyond ASCII whose
  lower case holds an ASCII letter (U+0130 and the Kelvin sign U+212A), so that the keyword
  tests of the fallback analysis see every ASCII letter that the code sees. The lower case
  of the other letters beyond ASCII is left out: such a code unit stays as it is.
\<close>

definition toLowerUnit :: "int \<Rightarrow> int list" where
  "toLowerUnit u =
     (if 65 \<le> u \<and> u \<le> 90 then [u + 32]
      else if u = 304 then [105, 775]
      else if u = 8490 then [107]
      else [u])"

definition toLowerCase :: "js_string \<Rightarrow> js_string" where
  "toLowerCase s = concat (map toLowerUnit s)"

text \<open>The white space and line terminators that \<^verbatim>\<open>trim\<close> strips.\<close>

definition isWhiteSpace :: "int \<Rightarrow> bool" where
  "isWhiteSpace u =
     ((9 \<le> u \<and> u \<le> 13) \<or> u = 32 \<or> u = 160 \<or> u = 5760 \<or> (8192 \<le> u \<and> u \<le> 8202) \<or>
      u = 8232 \<or> u = 8233 \<or> u = 8239 \<or> u = 8287 \<or> u = 12288 \<or> u = 65279)"

definition trim :: "js_string \<Rightarrow> js_string" where
  "trim s = rev (dropWhile isWhiteSpace (rev (dropWhile isWhiteSpace s)))"

fun startsWith :: "'a list \<Rightarrow> 'a list \<Rightarrow> bool" where
  "startsWith s [] = True"
| "startsWith [] (p # ps) = False"
| "startsWith (c # cs) (p # ps) = (if c = p then startsWith cs ps else False)"

text \<open>\<^verbatim>\<open>s.includes(sub)\<close>: \<open>sub\<close> occurs in \<open>s\<close> as a contiguous substring.\<close>

fun includes_str :: "'a list \<Rightarrow> 'a list \<Rightarrow> bool" where
  "includes_str [] sub = (sub = [])"
| "includes_str (c # cs) sub = (if startsWith (c # cs) sub then True else includes_str cs sub)"

text \<open>
  \<^verbatim>\<open>s.replace(pat, rep)\<close> with a string pattern: the first occurrence only. The
  replacement strings of this program are outputs of \<^verbatim>\<open>encodeURIComponent\<close>, which hold
  no dollar sign, so the substitution patterns of \<^verbatim>\<open>replace\<close> never apply.
\<close>

fun replace_first :: "string \<Rightarrow> string \<Rightarrow> string \<Rightarrow> string" where
  "replace_first pat rep [] = (if pat = [] then rep else [])"
| "replace_first pat rep (c # cs) =
     (if startsWith (c # cs) pat then rep @ drop (length pat) (c # cs)
      else c # replace_first pat rep cs)"

subsection \<open>\<^verbatim>\<open>encodeURIComponent\<close>\<close>

text \<open>
  The code points of a string: a leading surrogate followed by a trailing one is one code
  point beyond the basic plane; a surrogate without its partner has no code point, and
  the string is ill-formed.
\<close>

definition isLeadSurrogate :: "int \<Rightarrow> bool" where
  "isLeadSurrogate u = (55296 \<le> u \<and> u \<le> 56319)"

definition isTrailSurrogate :: "int \<Rightarrow> bool" where
  "isTrailSurrogate u = (56320 \<le> u \<and> u \<le> 57343)"

fun codePoints :: "js_string \<Rightarrow> int list option" where
  "codePoints [] = Some []"
| "codePoints [u] =
     (if isLeadSurrogate u then None
      else if isTrailSurrogate u then None
      else Some [u])"
| "codePoints (u # v # vs) =
     (if isLeadSurrogate u then
        (if isTrailSurrogate v then
           map_option ((#) (65536 + (u - 55296) * 1024 + (v - 56320))) (codePoints vs)
         else None)
      else if isTrailSurrogate u then None
      else map_option ((#) u) (codePoints (v # vs)))"

text \<open>The UTF-8 octets of a code point.\<close>

definition utf8 :: "int \<Rightarrow> int list" where
  "utf8 cp =
     (if cp < 128 then [cp]
      else if cp < 2048 then [192 + cp div 64, 128 + cp mod 64]
      else if cp < 65536 then [224 + cp div 4096, 128 + (cp div 64) mod 64, 128 + cp mod 64]
      else [240 + cp div 262144, 128 + (cp div 4096) mod 64, 128 + (cp div 64) mod 64,
            128 + cp mod 64])"

definition hexDigit :: "int \<Rightarrow> char" where
  "hexDigit n = (if n < 10 then char_of (48 + n) else char_of (55 + n))"

definition percent :: "int \<Rightarrow> string" where
  "percent octet = [CHR ''%'', hexDigit (octet div 16), hexDigit (octet mod 16)]"

text \<open>The characters that are kept: letters, digits and \<^verbatim>\<open>- _ . ! ~ * ' ( )\<close>.\<close>

definition isUnreserved :: "int \<Rightarrow> bool" where
  "isUnreserved cp =
     ((65 \<le> cp \<and> cp \<le> 90) \<or> (97 \<le> cp \<and> cp \<le> 122) \<or> (48 \<le> cp \<and> cp \<le> 57) \<or>
      cp \<in> set [45, 95, 46, 33, 126, 42, 39, 40, 41])"

definition encodePoint :: "int \<Rightarrow> string" where
  "encodePoint cp = (if isUnreserved cp then [char_of cp] else concat (map percent (utf8 cp)))"

definition uri_malformed :: string where
  "uri_malformed = ''URI malformed''"

text \<open>Left: the message of the \<^verbatim>\<open>URIError\<close> thrown on an ill-formed string.\<close>

definition encodeURIComponent :: "js_string \<Rightarrow> string + string" where
  "encodeURIComponent s =
     (case codePoints s of
        None \<Rightarrow> Inl uri_malformed
      | Some cps \<Rightarrow> Inr (concat (map encodePoint cps)))"

fun show_nat :: "nat \<Rightarrow> string" where
  "show_nat n =
     (if n < 10 then [char_of (48 + n)] else show_nat (n div 10) @ [char_of (48 + n mod 10)])"

section \<open>Data model\<close>

record selectors =
  primary :: string
  secondary :: string

record analysis =
  website :: string
  url :: string
  scraping_strategy :: string
  selectors :: selectors

section \<open>URL templates\<close>

definition URL_TEMPLATES_amazon :: string where
  "URL_TEMPLATES_amazon = ''https://www.amazon.in/s?k={QUERY}''"

definition URL_TEMPLATES_flights :: string where
  "URL_TEMPLATES_flights = ''https://www.google.com/travel/flights?q={QUERY}''"

definition URL_TEMPLATES_tracking :: string where
  "URL_TEMPLATES_tracking = ''https://www.bluedart.com/tracking''"

definition URL_TEMPLATES_google :: string where
  "URL_TEMPLATES_google = ''https://www.google.com/search?q={QUERY}''"

definition URL_TEMPLATES_zomato :: string where
  "URL_TEMPLATES_zomato = ''https://www.zomato.com/search?q={QUERY}''"

section \<open>Fallback analysis\<close>

text \<open>
  Each branch builds its object; the branches that encode the query into the URL throw
  what \<^verbatim>\<open>encodeURIComponent\<close> throws (left), the tracking branch cannot throw.
\<close>

definition amazon_analysis :: "js_string \<Rightarrow> string + analysis" where
  \<open>amazon_analysis query =
     (case encodeURIComponent query of
        Inl m \<Rightarrow> Inl m
      | Inr encoded \<Rightarrow>
          Inr \<lparr>website = ''amazon'',
               url = replace_first ''{QUERY}'' encoded URL_TEMPLATES_amazon,
               scraping_strategy = ''product_list'',
               selectors = \<lparr>primary = ''[data-component-type="s-search-result"]'',
                            secondary = ''.s-price, .a-price-whole''\<rparr>\<rparr>)\<close>

definition flights_analysis :: "js_string \<Rightarrow> string + analysis" where
  "flights_analysis query =
     (case encodeURIComponent query of
        Inl m \<Rightarrow> Inl m
      | Inr encoded \<Rightarrow>
          Inr \<lparr>website = ''flights'',
               url = replace_first ''{QUERY}'' encoded URL_TEMPLATES_flights,
               scraping_strategy = ''flight_search'',
               selectors = \<lparr>primary = ''.gws-flights-results__result'',
                            secondary = ''.gws-flights-results__price''\<rparr>\<rparr>)"

definition tracking_analysis :: "js_string \<Rightarrow> string + analysis" where
  "tracking_analysis query =
     Inr \<lparr>website = ''tracking'',
          url = URL_TEMPLATES_tracking,
          scraping_strategy = ''tracking_info'',
          selectors = \<lparr>primary = ''.tracking-info'', secondary = ''.status''\<rparr>\<rparr>"

definition zomato_analysis :: "js_string \<Rightarrow> string + analysis" where
  "zomato_analysis query =
     (case encodeURIComponent query of
        Inl m \<Rightarrow> Inl m
      | Inr encoded \<Rightarrow>
          Inr \<lparr>website = ''zomato'',
               url = replace_first ''{QUERY}'' encoded URL_TEMPLATES_zomato,
               scraping_strategy = ''restaurant_search'',
               selectors = \<lparr>primary = ''.search-result'',
                            secondary = ''.rating, .cost''\<rparr>\<rparr>)"

definition google_analysis :: "js_string \<Rightarrow> string + analysis" where
  "google_analysis query =
     (case encodeURIComponent query of
        Inl m \<Rightarrow> Inl m
      | Inr encoded \<Rightarrow>
          Inr \<lparr>website = ''google'',
               url = replace_first ''{QUERY}'' encoded URL_TEMPLATES_google,
               scraping_strategy = ''general_search'',
               selectors = \<lparr>primary = ''.g'', secondary = ''.r a''\<rparr>\<rparr>)"

text \<open>
  \<^verbatim>\<open>fallbackAnalysis(query)\<close>, the chain of \<^verbatim>\<open>if\<close> statements in the source's order:
  the analysis (right), or the message of what it throws (left).
\<close>

definition fallbackAnalysis :: "js_string \<Rightarrow> string + analysis" where
  "fallbackAnalysis query =
     (let lowerQuery = toLowerCase query in
      if includes_str lowerQuery (utf16 ''laptop'') \<or> includes_str lowerQuery (utf16 ''phone'')
           \<or> includes_str lowerQuery (utf16 ''product'')
      then amazon_analysis query
      else if includes_str lowerQuery (utf16 ''flight'')
           \<or> includes_str lowerQuery (utf16 ''travel'')
      then flights_analysis query
      else if includes_str lowerQuery (utf16 ''track'')
           \<or> includes_str lowerQuery (utf16 ''package'')
      then tracking_analysis query
      else if includes_str lowerQuery (utf16 ''restaurant'')
           \<or> includes_str lowerQuery (utf16 ''food'')
      then zomato_analysis query
      else google_analysis query)"

subsection \<open>The decision list of the specification\<close>





section \<open>Scraping results and extracted results\<close>

record raw_item =
  title :: string
  price :: string
  link :: string
  description :: string
  rating :: string

text \<open>What the injected \<^verbatim>\<open>extractPageContent\<close> hands back, as far as the caller reads it.\<close>

record page_result =
  pr_html :: string
  pr_data :: "raw_item list"

record scraping_result =
  sr_url :: string
  sr_strategy :: string
  html :: string
  data :: "raw_item list"

record extracted =
  success :: bool
  source :: string
  ex_url :: "string option"
  ex_strategy :: "string option"
  extracted_data :: "raw_item list"
  total_results :: int
  source_url :: "string option"
  error :: "string option"
  timestamp :: int

text \<open>
  The object that \<^verbatim>\<open>JSON.parse\<close> yields from the model's extraction answer. Its keys
  are spread over \<^verbatim>\<open>success\<close> and \<^verbatim>\<open>source\<close>, so a key that is present overrides them.
\<close>

record payload =
  p_success :: "bool option"
  p_source :: "string option"
  p_extracted_data :: "raw_item list option"
  p_total_results :: "int option"
  p_source_url :: "string option"

section \<open>The environment\<close>

text \<open>
  A promise is settled with a value, settled with an error (the message of the
  \<^verbatim>\<open>Error\<close>), or never settled.
\<close>

datatype 'a completion = Resolved 'a | Rejected string | Pending

text \<open>
  The body of an HTTP response: \<^verbatim>\<open>response.json()\<close> rejects, or reading the answer text
  off the parsed value throws, with a message; or the parsed object with its
  \<^verbatim>\<open>response\<close> and \<^verbatim>\<open>text\<close> fields, each a string or absent.
\<close>

datatype http_body = JsonFails string | JsonFields "string option" "string option"

text \<open>\<^verbatim>\<open>fetch\<close> rejects (network failure), or answers with \<^verbatim>\<open>ok\<close>, \<^verbatim>\<open>status\<close> and a body.\<close>

datatype fetch_outcome = FetchRejects string | FetchResponds bool nat http_body

text \<open>
  \<^verbatim>\<open>chrome.scripting.executeScript\<close> rejects, or resolves; reading
  \<^verbatim>\<open>results[0].result.html\<close> off what it resolved to throws a \<^verbatim>\<open>TypeError\<close> (left), or
  gives the page's result (right).
\<close>

datatype script_outcome = ScriptRejects string | ScriptSettles "string + page_result"

datatype ai_call = QueryAnalysis | DataExtraction | ConnectionTest

text \<open>The calls made to the outside world, in the order they are made.\<close>

datatype event = Fetch ai_call | TabsCreate string | ExecuteScript nat | TabsRemove nat

text \<open>
  Everything one invocation reads from outside: the clock at the three places that read
  it, the generated request id, the outcome of each asynchronous call, and \<^verbatim>\<open>JSON.parse\<close>
  at the two types it is used at (left: the message of the \<^verbatim>\<open>SyntaxError\<close>).
\<close>

record env =
  requestId :: string
  clock_rateLimit :: int
  clock_start :: int
  clock_result :: int
  analysisFetch :: fetch_outcome
  parseAnalysis :: "string \<Rightarrow> string + analysis"
  tabsCreate :: "string + nat"
  tabLoads :: bool
  executeScript :: script_outcome
  tabsRemove :: "string option"
  extractionFetch :: fetch_outcome
  parseExtraction :: "string \<Rightarrow> string + payload"
  connectionFetch :: fetch_outcome

section \<open>The orchestrator\<close>

text \<open>
  A JavaScript \<^verbatim>\<open>Map\<close> is an association list with distinct keys in insertion order:
  \<^verbatim>\<open>get\<close> is \<^const>\<open>map_of\<close>, \<^verbatim>\<open>set\<close> is \<^const>\<open>AList.update\<close>, \<^verbatim>\<open>delete\<close> is
  \<^const>\<open>AList.delete\<close>, \<^verbatim>\<open>clear\<close> gives the empty list and \<^verbatim>\<open>size\<close> is the length.
\<close>

record orchestrator =
  activeRequests :: "(string \<times> (js_string \<times> int)) list"
  cache :: "(js_string \<times> extracted) list"
  rateLimiter :: "(js_string \<times> int) list"

definition new_orchestrator :: orchestrator where
  "new_orchestrator = \<lparr>activeRequests = [], cache = [], rateLimiter = []\<rparr>"

subsection \<open>Rate limiter\<close>

text \<open>
  \<^verbatim>\<open>if (limit && now - limit < 2000) return false\<close>: \<open>limit\<close> is tested for truthiness, so
  an absent entry and the number 0 both pass. The entry is set on the passing path only.
\<close>

definition checkRateLimit :: "int \<Rightarrow> js_string \<Rightarrow> orchestrator \<Rightarrow> bool \<times> orchestrator" where
  "checkRateLimit now key s =
     (case map_of (rateLimiter s) key of
        None \<Rightarrow> (True, s\<lparr>rateLimiter := AList.update key now (rateLimiter s)\<rparr>)
      | Some limit \<Rightarrow>
          if limit \<noteq> 0 \<and> now - limit < 2000 then (False, s)
          else (True, s\<lparr>rateLimiter := AList.update key now (rateLimiter s)\<rparr>))"

subsection \<open>Query analyzer\<close>

text \<open>\<^verbatim>\<open>data.response || data.text || ''\<close>: the empty string is falsy.\<close>

definition responseText :: "string option \<Rightarrow> string option \<Rightarrow> string" where
  "responseText r t =
     (case r of
        Some x \<Rightarrow> if x \<noteq> [] then x else (case t of Some y \<Rightarrow> y | None \<Rightarrow> [])
      | None \<Rightarrow> (case t of Some y \<Rightarrow> y | None \<Rightarrow> []))"

text \<open>
  \<^verbatim>\<open>text.match(/\{[\s\S]*\}/)\<close>: the span from the first opening brace to the last closing
  brace after it, if there is one.
\<close>

definition match_json :: "string \<Rightarrow> string option" where
  "match_json s =
     (let fromBrace = dropWhile (\<lambda>c. c \<noteq> CHR ''{'') s;
          span = rev (dropWhile (\<lambda>c. c \<noteq> CHR ''}'') (rev fromBrace))
      in if span = [] then None else Some span)"

text \<open>
  The body of the \<^verbatim>\<open>try\<close> block; left is the message of what it throws. The call of
  \<^verbatim>\<open>fallbackAnalysis\<close> for an answer without a brace-delimited span is inside the block,
  so what it throws is thrown by the block.
\<close>

definition analyze_try :: "env \<Rightarrow> js_string \<Rightarrow> string + analysis" where
  "analyze_try e query =
     (case analysisFetch e of
        FetchRejects m \<Rightarrow> Inl m
      | FetchResponds ok status body \<Rightarrow>
          if ok then
            (case body of
               JsonFails m \<Rightarrow> Inl m
             | JsonFields r t \<Rightarrow>
                 (case match_json (responseText r t) of
                    None \<Rightarrow> fallbackAnalysis query
                  | Some j \<Rightarrow> parseAnalysis e j))
          else Inl (''Gemma API error: '' @ show_nat status))"

text \<open>
  The \<^verbatim>\<open>catch\<close> block returns \<^verbatim>\<open>fallbackAnalysis(query)\<close>, called outside any handler:
  what that call throws leaves the function. The outcome is the analysis (right) or the
  message of the error the promise rejects with (left).
\<close>

definition analyzeQueryWithGemma ::
  "env \<Rightarrow> js_string \<Rightarrow> (string + analysis) \<times> event list" where
  "analyzeQueryWithGemma e query =
     (case analyze_try e query of
        Inl m \<Rightarrow> (fallbackAnalysis query, [Fetch QueryAnalysis])
      | Inr a \<Rightarrow> (Inr a, [Fetch QueryAnalysis]))"

subsection \<open>Scrape executor\<close>

text \<open>
  \<^verbatim>\<open>waitForTabLoad\<close> resolves only after the tab reports \<^verbatim>\<open>complete\<close>; when it never
  does, the scrape never settles. \<^verbatim>\<open>chrome.tabs.remove\<close> is called on one path only,
  after the script has run; the \<^verbatim>\<open>catch\<close> block wraps the message and rethrows.
\<close>

definition performScraping :: "env \<Rightarrow> analysis \<Rightarrow> scraping_result completion \<times> event list" where
  "performScraping e a =
     (case tabsCreate e of
        Inl m \<Rightarrow> (Rejected (''Scraping failed: '' @ m), [TabsCreate (url a)])
      | Inr tabId \<Rightarrow>
          if tabLoads e then
            (case executeScript e of
               ScriptRejects m \<Rightarrow>
                 (Rejected (''Scraping failed: '' @ m),
                  [TabsCreate (url a), ExecuteScript tabId])
             | ScriptSettles res \<Rightarrow>
                 (case tabsRemove e of
                    Some m \<Rightarrow>
                      (Rejected (''Scraping failed: '' @ m),
                       [TabsCreate (url a), ExecuteScript tabId, TabsRemove tabId])
                  | None \<Rightarrow>
                      (case res of
                         Inl m \<Rightarrow>
                           (Rejected (''Scraping failed: '' @ m),
                            [TabsCreate (url a), ExecuteScript tabId, TabsRemove tabId])
                       | Inr pr \<Rightarrow>
                           (Resolved \<lparr>sr_url = url a, sr_strategy = scraping_strategy a,
                                      html = pr_html pr, data = pr_data pr\<rparr>,
                            [TabsCreate (url a), ExecuteScript tabId, TabsRemove tabId]))))
          else (Pending, [TabsCreate (url a)]))"

subsection \<open>Data extractor\<close>

definition direct_result :: "env \<Rightarrow> scraping_result \<Rightarrow> extracted" where
  "direct_result e sr =
     \<lparr>success = True, source = ''direct_scraping'', ex_url = Some (sr_url sr),
      ex_strategy = Some (sr_strategy sr), extracted_data = data sr,
      total_results = int (length (data sr)), source_url = None, error = None,
      timestamp = clock_result e\<rparr>"

definition gemma_result :: "env \<Rightarrow> payload \<Rightarrow> extracted" where
  "gemma_result e p =
     \<lparr>success = (case p_success p of Some b \<Rightarrow> b | None \<Rightarrow> True),
      source = (case p_source p of Some x \<Rightarrow> x | None \<Rightarrow> ''gemma_extraction''),
      ex_url = None, ex_strategy = None,
      extracted_data = (case p_extracted_data p of Some d \<Rightarrow> d | None \<Rightarrow> []),
      total_results = (case p_total_results p of Some n \<Rightarrow> n | None \<Rightarrow> 0),
      source_url = p_source_url p, error = None, timestamp = clock_result e\<rparr>"

definition fallback_result :: "env \<Rightarrow> scraping_result \<Rightarrow> string \<Rightarrow> extracted" where
  "fallback_result e sr m =
     \<lparr>success = False, source = ''fallback'', ex_url = Some (sr_url sr),
      ex_strategy = Some (sr_strategy sr), extracted_data = data sr,
      total_results = int (length (data sr)), source_url = None, error = Some m,
      timestamp = clock_result e\<rparr>"

text \<open>The body of the \<^verbatim>\<open>try\<close> block, with the calls it makes.\<close>

definition extract_try :: "env \<Rightarrow> scraping_result \<Rightarrow> (string + extracted) \<times> event list" where
  "extract_try e sr =
     (if 0 < length (data sr) then (Inr (direct_result e sr), [])
      else
        ((case extractionFetch e of
            FetchRejects m \<Rightarrow> Inl m
          | FetchResponds ok status body \<Rightarrow>
              if ok then
                (case body of
                   JsonFails m \<Rightarrow> Inl m
                 | JsonFields r t \<Rightarrow>
                     (case match_json (responseText r t) of
                        None \<Rightarrow> Inl ''No valid JSON found in Gemma response''
                      | Some j \<Rightarrow>
                          (case parseExtraction e j of
                             Inl m \<Rightarrow> Inl m
                           | Inr p \<Rightarrow> Inr (gemma_result e p))))
              else Inl (''Gemma extraction error: '' @ show_nat status)),
         [Fetch DataExtraction]))"

definition extractDataWithGemma :: "env \<Rightarrow> scraping_result \<Rightarrow> extracted \<times> event list" where
  "extractDataWithGemma e sr =
     (case extract_try e sr of
        (Inr r, tr) \<Rightarrow> (r, tr)
      | (Inl m, tr) \<Rightarrow> (fallback_result e sr m, tr))"

subsection \<open>Query pipeline\<close>

definition rate_limit_message :: string where
  "rate_limit_message = ''Rate limit exceeded. Please wait before making another request.''"

definition cacheKey :: "js_string \<Rightarrow> js_string" where
  "cacheKey query = utf16 ''query_'' @ trim (toLowerCase query)"

text \<open>
  One invocation of \<^verbatim>\<open>processQuery\<close>, run from its start to the point where its promise
  settles (or for ever): the outcome, the orchestrator afterwards, and the outside calls.
\<close>

definition processQuery ::
  "env \<Rightarrow> js_string \<Rightarrow> orchestrator \<Rightarrow>
     extracted completion \<times> orchestrator \<times> event list" where
  "processQuery e query s =
     (case checkRateLimit (clock_rateLimit e) query s of
        (False, s1) \<Rightarrow>
          (Rejected rate_limit_message,
           s1\<lparr>activeRequests := AList.delete (requestId e) (activeRequests s1)\<rparr>, [])
      | (True, s1) \<Rightarrow>
          (case map_of (cache s1) (cacheKey query) of
             Some r \<Rightarrow> (Resolved r, s1, [])
           | None \<Rightarrow>
               (let s2 = s1\<lparr>activeRequests :=
                            AList.update (requestId e) (query, clock_start e) (activeRequests s1)\<rparr>
                in case analyzeQueryWithGemma e query of
                     (Inl m, t1) \<Rightarrow>
                       (Rejected m,
                        s2\<lparr>activeRequests := AList.delete (requestId e) (activeRequests s2)\<rparr>,
                        t1)
                   | (Inr analysisResult, t1) \<Rightarrow>
                       (case performScraping e analysisResult of
                          (Pending, t2) \<Rightarrow> (Pending, s2, t1 @ t2)
                        | (Rejected m, t2) \<Rightarrow>
                            (Rejected m,
                             s2\<lparr>activeRequests :=
                                  AList.delete (requestId e) (activeRequests s2)\<rparr>,
                             t1 @ t2)
                        | (Resolved scrapingResult, t2) \<Rightarrow>
                            (let (extractedData, t3) = extractDataWithGemma e scrapingResult
                             in (Resolved extractedData,
                                 s2\<lparr>cache :=
                                      AList.update (cacheKey query) extractedData (cache s2),
                                    activeRequests :=
                                      AList.delete (requestId e) (activeRequests s2)\<rparr>,
                                 t1 @ t2 @ t3))))))"

subsection \<open>Message handler\<close>

record request =
  req_action :: string
  req_query :: js_string

datatype response =
  ScrapeSuccess extracted
| StatusSuccess nat nat bool
| ClearSuccess string
| Failure string

definition testGemmaConnection :: "env \<Rightarrow> bool" where
  "testGemmaConnection e =
     (case connectionFetch e of FetchRejects m \<Rightarrow> False | FetchResponds ok status body \<Rightarrow> ok)"

text \<open>The response passed to \<^verbatim>\<open>sendResponse\<close>; none while the pipeline never settles.\<close>

definition handleMessage ::
  "env \<Rightarrow> request \<Rightarrow> orchestrator \<Rightarrow> response option \<times> orchestrator \<times> event list" where
  "handleMessage e req s =
     (if req_action req = ''scrapeQuery'' then
        (case processQuery e (req_query req) s of
           (Resolved r, s', tr) \<Rightarrow> (Some (ScrapeSuccess r), s', tr)
         | (Rejected m, s', tr) \<Rightarrow> (Some (Failure m), s', tr)
         | (Pending, s', tr) \<Rightarrow> (None, s', tr))
      else if req_action req = ''getStatus'' then
        (Some (StatusSuccess (length (activeRequests s)) (length (cache s))
                 (testGemmaConnection e)),
         s, [Fetch ConnectionTest])
      else if req_action req = ''clearCache'' then
        (Some (ClearSuccess ''Cache cleared''), s\<lparr>cache := []\<rparr>, [])
      else (Some (Failure ''Unknown action''), s, []))"

section \<open>Example runs\<close>

text \<open>
  A concrete environment: the inference endpoint is down, the tab with id 7 loads, the
  injected script finds one item, and the pipeline takes 2400 ms.
\<close>

definition item_example :: raw_item where
  "item_example =
     \<lparr>title = ''Laptop X'', price = ''79,990'', link = ''https://www.amazon.in/dp/B0X'',
      description = [], rating = ''4.2''\<rparr>"

definition page_example :: page_result where
  "page_example = \<lparr>pr_html = ''<html></html>'', pr_data = [item_example]\<rparr>"

definition env_at :: "int \<Rightarrow> env" where
  "env_at t =
     \<lparr>requestId = ''req_k3j9x2a1b'', clock_rateLimit = t, clock_start = t,
      clock_result = t + 2400,
      analysisFetch = FetchRejects ''Failed to fetch'',
      parseAnalysis = (\<lambda>j. Inl ''Unexpected token w in JSON at position 1''),
      tabsCreate = Inr 7, tabLoads = True,
      executeScript = ScriptSettles (Inr page_example), tabsRemove = None,
      extractionFetch = FetchRejects ''Failed to fetch'',
      parseExtraction = (\<lambda>j. Inl ''Unexpected token w in JSON at position 1''),
      connectionFetch = FetchRejects ''Failed to fetch''\<rparr>"

definition laptop_result :: "int \<Rightarrow> extracted" where
  "laptop_result t =
     \<lparr>success = True, source = ''direct_scraping'',
      ex_url = Some ''https://www.amazon.in/s?k=laptop'', ex_strategy = Some ''product_list'',
      extracted_data = [item_example], total_results = 1, source_url = None, error = None,
      timestamp = t + 2400\<rparr>"

text \<open>The state after a first query "laptop" at time 1700000000000.\<close>

definition after_first :: orchestrator where
  "after_first = fst (snd (processQuery (env_at 1700000000000) (utf16 ''laptop'') new_orchestrator))"

text \<open>... and after a second one 1500 ms later, which the rate limiter turns down.\<close>

definition after_denied :: orchestrator where
  "after_denied = fst (snd (processQuery (env_at 1700000001500) (utf16 ''laptop'') after_first))"

text \<open>The state after the first query and a second one 3000 ms later, a cache hit.\<close>

definition after_hit :: orchestrator where
  "after_hit = fst (snd (processQuery (env_at 1700000003000) (utf16 ''laptop'') after_first))"

text \<open>... then a third one 1500 ms after the second, turned down, and a cache clear.\<close>

definition after_hit_denied :: orchestrator where
  "after_hit_denied = fst (snd (processQuery (env_at 1700000004500) (utf16 ''laptop'') after_hit))"

definition clearCache_request :: request where
  "clearCache_request = \<lparr>req_action = ''clearCache'', req_query = []\<rparr>"

definition after_clear :: orchestrator where
  "after_clear =
     fst (snd (handleMessage (env_at 1700000005000) clearCache_request after_hit_denied))"

text \<open>The fallback analysis of the query "laptop".\<close>

definition laptop_analysis :: analysis where
  \<open>laptop_analysis =
     \<lparr>website = ''amazon'', url = ''https://www.amazon.in/s?k=laptop'',
      scraping_strategy = ''product_list'',
      selectors = \<lparr>primary = ''[data-component-type="s-search-result"]'',
                   secondary = ''.s-price, .a-price-whole''\<rparr>\<rparr>\<close>

text \<open>
  A query that ends in one half of a surrogate pair: the text "laptop " followed by the
  leading surrogate U+D83D, with which the code points of many emoji begin.
\<close>

definition half_emoji_query :: js_string where
  "half_emoji_query = utf16 ''laptop '' @ [55357]"

text \<open>The page cannot be scripted: the tab shows an error page.\<close>

definition env_script_rejects :: env where
  "env_script_rejects =
     (env_at 1700000000000)
       \<lparr>executeScript := ScriptRejects ''Frame with ID 0 is showing error page''\<rparr>"

text \<open>The inference endpoint answers, in four ways that are of no use.\<close>

definition env_http_error :: env where
  "env_http_error =
     (env_at 1700000000000)
       \<lparr>analysisFetch := FetchResponds False 500 (JsonFails []),
        extractionFetch := FetchResponds False 500 (JsonFails [])\<rparr>"

definition env_bad_body :: env where
  "env_bad_body =
     (env_at 1700000000000)
       \<lparr>analysisFetch := FetchResponds True 200 (JsonFails ''Unexpected end of JSON input''),
        extractionFetch := FetchResponds True 200 (JsonFails ''Unexpected end of JSON input'')\<rparr>"

definition env_no_object :: env where
  "env_no_object =
     (env_at 1700000000000)
       \<lparr>analysisFetch := FetchResponds True 200 (JsonFields (Some ''I cannot tell.'') None),
        extractionFetch := FetchResponds True 200 (JsonFields (Some ''I cannot tell.'') None)\<rparr>"

definition env_unparsable :: env where
  "env_unparsable =
     (env_at 1700000000000)
       \<lparr>analysisFetch :=
          FetchResponds True 200 (JsonFields (Some ''Sure: {website: amazon}'') None),
        extractionFetch :=
          FetchResponds True 200 (JsonFields (Some ''Sure: {website: amazon}'') None)\<rparr>"

text \<open>The endpoint is down and the page has no element that matches the selector.\<close>

definition env_empty_page :: env where
  "env_empty_page =
     (env_at 1700000000000)
       \<lparr>executeScript := ScriptSettles (Inr \<lparr>pr_html = ''<html></html>'', pr_data = []\<rparr>)\<rparr>"

text \<open>The fallback analysis of the query "xyz".\<close>

definition xyz_analysis :: analysis where
  "xyz_analysis =
     \<lparr>website = ''google'', url = ''https://www.google.com/search?q=xyz'',
      scraping_strategy = ''general_search'',
      selectors = \<lparr>primary = ''.g'', secondary = ''.r a''\<rparr>\<rparr>"

definition scrape_nonempty :: scraping_result where
  "scrape_nonempty =
     \<lparr>sr_url = ''https://www.amazon.in/s?k=laptop'', sr_strategy = ''product_list'',
      html = ''<html></html>'', data = [item_example]\<rparr>"

definition scrape_empty :: scraping_result where
  "scrape_empty =
     \<lparr>sr_url = ''https://www.google.com/search?q=xyz'', sr_strategy = ''general_search'',
      html = ''<html></html>'', data = []\<rparr>"

section \<open>Properties of the fallback analyzer\<close>







lemma fallback_url_example:
  "map_sum id url (fallbackAnalysis (utf16 ''gaming laptop under 80000'')) =
     Inr ''https://www.amazon.in/s?k=gaming%20laptop%20under%2080000''"
  by code_simp

text \<open>Beyond ASCII the query goes into the URL as the UTF-8 octets of its code points.\<close>

lemma encodeURIComponent_examples:
  "encodeURIComponent [99, 97, 102, 233] = Inr ''caf%C3%A9'' \<and>
   encodeURIComponent [8364, 32, 55357, 56832] = Inr ''%E2%82%AC%20%F0%9F%98%80'' \<and>
   encodeURIComponent [55357] = Inl ''URI malformed'' \<and>
   encodeURIComponent [56832, 55357] = Inl ''URI malformed''"
  by code_simp

text \<open>The Kelvin sign is a letter k to the keyword tests, as it is to the code's.\<close>

lemma fallback_kelvin_sign:
  "toLowerCase (utf16 ''Trac'' @ [8490]) = utf16 ''track'' \<and>
   map_sum id website (fallbackAnalysis (utf16 ''Trac'' @ [8490])) = Inr ''tracking''"
  by code_simp

text \<open>The fallback analysis throws on the ill-formed queries, and on no others.\<close>

lemma fallbackAnalysis_error:
  "fallbackAnalysis query = Inl m \<Longrightarrow> m = uri_malformed \<and> codePoints query = None"
  by (auto simp: fallbackAnalysis_def Let_def amazon_analysis_def flights_analysis_def
      tracking_analysis_def zomato_analysis_def google_analysis_def encodeURIComponent_def
      split: if_splits option.splits sum.splits)

lemma fallbackAnalysis_wellformed:
  "codePoints query = Some cps \<Longrightarrow> \<exists>a. fallbackAnalysis query = Inr a"
  by (cases "fallbackAnalysis query") (auto dest: fallbackAnalysis_error)


section \<open>Query analyzer\<close>

text \<open>
  On each failure of the AI path, \<^verbatim>\<open>analyzeQueryWithGemma\<close> ends as
  \<^verbatim>\<open>fallbackAnalysis\<close> ends for the same query: when \<^verbatim>\<open>fetch\<close> rejects, when the status is
  not ok, when the body is not JSON, when the answer text has no brace-delimited span, and
  when \<^verbatim>\<open>JSON.parse\<close> refuses the span.
\<close>

lemma analyzeQueryWithGemma_falls_back:
  "(analysisFetch e = FetchRejects m \<longrightarrow>
      fst (analyzeQueryWithGemma e q) = fallbackAnalysis q) \<and>
   (analysisFetch e = FetchResponds False status body \<longrightarrow>
      fst (analyzeQueryWithGemma e q) = fallbackAnalysis q) \<and>
   (analysisFetch e = FetchResponds True status (JsonFails m) \<longrightarrow>
      fst (analyzeQueryWithGemma e q) = fallbackAnalysis q) \<and>
   (analysisFetch e = FetchResponds True status (JsonFields r t) \<and>
    match_json (responseText r t) = None \<longrightarrow>
      fst (analyzeQueryWithGemma e q) = fallbackAnalysis q) \<and>
   (analysisFetch e = FetchResponds True status (JsonFields r t) \<and>
    match_json (responseText r t) = Some j \<and> parseAnalysis e j = Inl m \<longrightarrow>
      fst (analyzeQueryWithGemma e q) = fallbackAnalysis q)"
  by (auto simp: analyzeQueryWithGemma_def analyze_try_def split: sum.splits)

text \<open>
  So the analyzer returns an analysis for every query that is well-formed, whatever the
  endpoint does, and the only error that leaves it is the \<^verbatim>\<open>URIError\<close> of the fallback
  analysis on an ill-formed query.
\<close>

lemma analyzeQueryWithGemma_message:
  "analyzeQueryWithGemma e q = (Inl m, tr) \<Longrightarrow> m = uri_malformed \<and> codePoints q = None"
  by (auto simp: analyzeQueryWithGemma_def split: sum.splits dest: fallbackAnalysis_error)

lemma analyzeQueryWithGemma_wellformed:
  "codePoints q = Some cps \<Longrightarrow> \<exists>a. fst (analyzeQueryWithGemma e q) = Inr a"
  by (cases "analyzeQueryWithGemma e q", cases "fst (analyzeQueryWithGemma e q)")
    (auto dest: analyzeQueryWithGemma_message)

lemma analyzeQueryWithGemma_examples:
  "fst (analyzeQueryWithGemma (env_at 1700000000000) (utf16 ''flights to Mumbai'')) =
     fallbackAnalysis (utf16 ''flights to Mumbai'') \<and>
   fst (analyzeQueryWithGemma env_http_error (utf16 ''flights to Mumbai'')) =
     fallbackAnalysis (utf16 ''flights to Mumbai'') \<and>
   fst (analyzeQueryWithGemma env_bad_body (utf16 ''flights to Mumbai'')) =
     fallbackAnalysis (utf16 ''flights to Mumbai'') \<and>
   fst (analyzeQueryWithGemma env_no_object (utf16 ''flights to Mumbai'')) =
     fallbackAnalysis (utf16 ''flights to Mumbai'') \<and>
   fst (analyzeQueryWithGemma env_unparsable (utf16 ''flights to Mumbai'')) =
     fallbackAnalysis (utf16 ''flights to Mumbai'') \<and>
   map_sum id website (fallbackAnalysis (utf16 ''flights to Mumbai'')) = Inr ''flights''"
  by code_simp

text \<open>
  C7 at a failing run. The query is the text "laptop " followed by one half of a surrogate
  pair. With the endpoint down, \<^verbatim>\<open>fetch\<close> rejects, the \<^verbatim>\<open>catch\<close> block calls
  \<^verbatim>\<open>fallbackAnalysis\<close>, whose \<^verbatim>\<open>encodeURIComponent\<close> throws the \<^verbatim>\<open>URIError\<close>, and no
  handler is around that call: the analyzer rejects. With an endpoint that answers without
  a JSON object, the call in the \<^verbatim>\<open>try\<close> block throws, is caught, and the call in the
  \<^verbatim>\<open>catch\<close> block throws again. The error goes on through \<^verbatim>\<open>processQuery\<close> to
  the caller, where C7 wants an analysis returned for every query.
\<close>

theorem analyzeQueryWithGemma_rejects_half_emoji:
  "analysisFetch (env_at 1700000000000) = FetchRejects ''Failed to fetch'' \<and>
   analyzeQueryWithGemma (env_at 1700000000000) half_emoji_query =
     (Inl ''URI malformed'', [Fetch QueryAnalysis]) \<and>
   analyzeQueryWithGemma env_no_object half_emoji_query =
     (Inl ''URI malformed'', [Fetch QueryAnalysis]) \<and>
   processQuery (env_at 1700000000000) half_emoji_query new_orchestrator =
     (Rejected ''URI malformed'',
      \<lparr>activeRequests = [], cache = [], rateLimiter = [(half_emoji_query, 1700000000000)]\<rparr>,
      [Fetch QueryAnalysis])"
  by code_simp

section \<open>Rate limiter\<close>

lemma checkRateLimit_pass:
  "fst (checkRateLimit now key s) \<Longrightarrow>
   snd (checkRateLimit now key s) = s\<lparr>rateLimiter := AList.update key now (rateLimiter s)\<rparr>"
  by (auto simp: checkRateLimit_def split: option.splits if_splits)

lemma checkRateLimit_deny:
  "\<not> fst (checkRateLimit now key s) \<Longrightarrow> snd (checkRateLimit now key s) = s"
  by (auto simp: checkRateLimit_def split: option.splits if_splits)

lemma checkRateLimit_deny_iff:
  "(\<not> fst (checkRateLimit now key s)) =
   (\<exists>limit. map_of (rateLimiter s) key = Some limit \<and> limit \<noteq> 0 \<and> now - limit < 2000)"
  by (auto simp: checkRateLimit_def split: option.splits)

lemma checkRateLimit_frame:
  "cache (snd (checkRateLimit now key s)) = cache s \<and>
   activeRequests (snd (checkRateLimit now key s)) = activeRequests s"
  by (auto simp: checkRateLimit_def split: option.splits)

lemma map_of_update_same: "map_of (AList.update k v al) k = Some v"
  by (simp add: update_conv')

text \<open>A zero timestamp is read as no entry at all.\<close>

lemma checkRateLimit_zero_entry:
  "map_of (rateLimiter s) key = Some 0 \<Longrightarrow> fst (checkRateLimit now key s)"
  by (simp add: checkRateLimit_def)

text \<open>The rate limiter's entries stay non-zero as long as the clock does not read zero.\<close>

lemma checkRateLimit_nonzero_kept:
  assumes "now \<noteq> 0" and "map_of (rateLimiter s) k \<noteq> Some 0"
  shows "map_of (rateLimiter (snd (checkRateLimit now key s))) k \<noteq> Some 0"
  using assms by (auto simp: checkRateLimit_def update_conv' split: option.splits)

lemma processQuery_rateLimiter:
  "rateLimiter (fst (snd (processQuery e q s))) =
   rateLimiter (snd (checkRateLimit (clock_rateLimit e) q s))"
  by (simp add: processQuery_def Let_def
      split: prod.splits bool.splits option.splits completion.splits sum.splits)

lemma processQuery_denied:
  "\<not> fst (checkRateLimit (clock_rateLimit e) q s) \<Longrightarrow>
   processQuery e q s =
     (Rejected rate_limit_message,
      s\<lparr>activeRequests := AList.delete (requestId e) (activeRequests s)\<rparr>, [])"
  using checkRateLimit_deny[of "clock_rateLimit e" q s]
  by (cases "checkRateLimit (clock_rateLimit e) q s") (simp add: processQuery_def)

lemma performScraping_message:
  "performScraping e a = (Rejected m, tr) \<Longrightarrow> \<exists>m'. m = ''Scraping failed: '' @ m'"
  by (auto simp: performScraping_def
      split: sum.splits if_splits script_outcome.splits option.splits)

lemma processQuery_passed_not_rate_error:
  assumes "fst (checkRateLimit (clock_rateLimit e) q s)"
  shows "fst (processQuery e q s) \<noteq> Rejected rate_limit_message"
proof (cases "checkRateLimit (clock_rateLimit e) q s")
  case (Pair b s1)
  with assms have "b" by simp
  with Pair show ?thesis
    by (auto simp: processQuery_def Let_def rate_limit_message_def uri_malformed_def
        split: prod.splits option.splits completion.splits sum.splits
        dest!: performScraping_message analyzeQueryWithGemma_message)
qed

lemma processQuery_after_accepted:
  assumes "fst (checkRateLimit (clock_rateLimit e1) q s0)"
  shows "map_of (rateLimiter (fst (snd (processQuery e1 q s0)))) q = Some (clock_rateLimit e1)"
  using assms
  by (simp add: processQuery_rateLimiter checkRateLimit_pass map_of_update_same)

text \<open>
  C3, as the code has it. A call of \<^verbatim>\<open>checkRateLimit\<close> that returns true records the time
  of the call for its key; a call that returns false leaves the rate limiter, and the
  whole orchestrator, as it was, so the entry stays the time of the last call that passed.
\<close>

theorem checkRateLimit_records_on_pass_only:
  "(fst (checkRateLimit now key s) \<longrightarrow>
      map_of (rateLimiter (snd (checkRateLimit now key s))) key = Some now) \<and>
   (\<not> fst (checkRateLimit now key s) \<longrightarrow> snd (checkRateLimit now key s) = s)"
  by (simp add: checkRateLimit_pass checkRateLimit_deny map_of_update_same)

theorem checkRateLimit_records_on_pass_only_witness:
  "fst (checkRateLimit 1700000000000 (utf16 ''laptop'') new_orchestrator) \<and>
   map_of (rateLimiter (snd (checkRateLimit 1700000000000 (utf16 ''laptop'') new_orchestrator)))
     (utf16 ''laptop'') = Some 1700000000000 \<and>
   \<not> fst (checkRateLimit 1700000001500 (utf16 ''laptop'') after_first) \<and>
   snd (checkRateLimit 1700000001500 (utf16 ''laptop'') after_first) = after_first"
proof -
  have pass: "fst (checkRateLimit 1700000000000 (utf16 ''laptop'') new_orchestrator)"
    by code_simp
  have deny: "\<not> fst (checkRateLimit 1700000001500 (utf16 ''laptop'') after_first)"
    by code_simp
  from pass deny
    checkRateLimit_records_on_pass_only [of 1700000000000 "utf16 ''laptop''" new_orchestrator]
    checkRateLimit_records_on_pass_only [of 1700000001500 "utf16 ''laptop''" after_first]
  show ?thesis by blast
qed

text \<open>
  The call 1500 ms after an allowed one returns false, and the entry afterwards is the time
  of the allowed call, not of this one.
\<close>

theorem checkRateLimit_denied_call_not_recorded:
  "fst (checkRateLimit 1700000001500 (utf16 ''laptop'')
          (snd (checkRateLimit 1700000000000 (utf16 ''laptop'') new_orchestrator))) = False \<and>
   map_of (rateLimiter (snd (checkRateLimit 1700000001500 (utf16 ''laptop'')
          (snd (checkRateLimit 1700000000000 (utf16 ''laptop'') new_orchestrator))))) (utf16 ''laptop'')
     = Some 1700000000000 \<and>
   map_of (rateLimiter (snd (checkRateLimit 1700000001500 (utf16 ''laptop'')
          (snd (checkRateLimit 1700000000000 (utf16 ''laptop'') new_orchestrator))))) (utf16 ''laptop'')
     \<noteq> Some 1700000001500"
  by code_simp

text \<open>
  C2, as the code has it. With the clock after the epoch, so that no recorded timestamp is
  zero: \<^verbatim>\<open>checkRateLimit(key)\<close> returns false if and only if there is a timestamp for the
  key and the time elapsed since it is strictly below 2000 ms, and true otherwise. Of two
  invocations of \<^verbatim>\<open>processQuery\<close> with the same raw key less than 2000 ms apart, the
  first of which passed the rate limiter, the second is rejected with the rate-limit
  error; and an invocation 2000 ms or more after the last one that passed is let through:
  whatever it ends with, it is not the rate-limit error.
\<close>

theorem rate_limit_cooldown:
  "(map_of (rateLimiter s) key \<noteq> Some 0 \<longrightarrow>
      (fst (checkRateLimit now key s) = False) =
      (\<exists>limit. map_of (rateLimiter s) key = Some limit \<and> now - limit < 2000)) \<and>
   (fst (checkRateLimit (clock_rateLimit e1) q s0) \<and> clock_rateLimit e1 \<noteq> 0 \<and>
    clock_rateLimit e2 - clock_rateLimit e1 < 2000 \<longrightarrow>
      fst (processQuery e2 q (fst (snd (processQuery e1 q s0)))) =
        Rejected rate_limit_message) \<and>
   (map_of (rateLimiter s) q = Some t \<and> 2000 \<le> clock_rateLimit e - t \<longrightarrow>
      fst (checkRateLimit (clock_rateLimit e) q s) \<and>
      fst (processQuery e q s) \<noteq> Rejected rate_limit_message)"
proof (intro conjI impI)
  assume "map_of (rateLimiter s) key \<noteq> Some 0"
  then show "(fst (checkRateLimit now key s) = False) =
      (\<exists>limit. map_of (rateLimiter s) key = Some limit \<and> now - limit < 2000)"
    using checkRateLimit_deny_iff [of now key s] by auto
next
  assume h: "fst (checkRateLimit (clock_rateLimit e1) q s0) \<and> clock_rateLimit e1 \<noteq> 0 \<and>
    clock_rateLimit e2 - clock_rateLimit e1 < 2000"
  then have "map_of (rateLimiter (fst (snd (processQuery e1 q s0)))) q =
      Some (clock_rateLimit e1)"
    by (simp add: processQuery_after_accepted)
  with h have "\<not> fst (checkRateLimit (clock_rateLimit e2) q (fst (snd (processQuery e1 q s0))))"
    by (simp add: checkRateLimit_deny_iff)
  then show "fst (processQuery e2 q (fst (snd (processQuery e1 q s0)))) =
      Rejected rate_limit_message"
    by (simp add: processQuery_denied)
next
  assume h: "map_of (rateLimiter s) q = Some t \<and> 2000 \<le> clock_rateLimit e - t"
  then have "\<not> (\<not> fst (checkRateLimit (clock_rateLimit e) q s))"
    unfolding checkRateLimit_deny_iff by auto
  then show pass: "fst (checkRateLimit (clock_rateLimit e) q s)" by simp
  then show "fst (processQuery e q s) \<noteq> Rejected rate_limit_message"
    by (rule processQuery_passed_not_rate_error)
qed

theorem rate_limit_cooldown_witness:
  "map_of (rateLimiter after_first) (utf16 ''laptop'') = Some 1700000000000 \<and>
   fst (checkRateLimit 1700000001500 (utf16 ''laptop'') after_first) = False \<and>
   fst (checkRateLimit (clock_rateLimit (env_at 1700000000000)) (utf16 ''laptop'') new_orchestrator) \<and>
   fst (processQuery (env_at 1700000001500) (utf16 ''laptop'')
          (fst (snd (processQuery (env_at 1700000000000) (utf16 ''laptop'') new_orchestrator)))) =
     Rejected rate_limit_message \<and>
   fst (checkRateLimit (clock_rateLimit (env_at 1700000002000)) (utf16 ''laptop'') after_first) \<and>
   fst (processQuery (env_at 1700000002000) (utf16 ''laptop'') after_first) \<noteq>
     Rejected rate_limit_message"
proof -
  have entry: "map_of (rateLimiter after_first) (utf16 ''laptop'') = Some 1700000000000"
    by code_simp
  have first: "fst (checkRateLimit (clock_rateLimit (env_at 1700000000000)) (utf16 ''laptop'')
      new_orchestrator)"
    by code_simp
  have clocks: "clock_rateLimit (env_at 1700000000000) \<noteq> 0 \<and>
      clock_rateLimit (env_at 1700000001500) - clock_rateLimit (env_at 1700000000000) < 2000 \<and>
      2000 \<le> clock_rateLimit (env_at 1700000002000) - 1700000000000"
    by (simp add: env_at_def)
  have close: "(1700000001500::int) - 1700000000000 < 2000"
    by simp
  note inst = rate_limit_cooldown [where s = after_first and key = "utf16 ''laptop''"
      and now = 1700000001500 and q = "utf16 ''laptop''" and ?e1.0 = "env_at 1700000000000"
      and ?s0.0 = new_orchestrator and ?e2.0 = "env_at 1700000001500"
      and t = 1700000000000 and e = "env_at 1700000002000"]
  from entry have nz: "map_of (rateLimiter after_first) (utf16 ''laptop'') \<noteq> Some 0" by simp
  from inst nz entry close
  have a: "fst (checkRateLimit 1700000001500 (utf16 ''laptop'') after_first) = False" by blast
  from inst first clocks
  have b: "fst (processQuery (env_at 1700000001500) (utf16 ''laptop'')
          (fst (snd (processQuery (env_at 1700000000000) (utf16 ''laptop'') new_orchestrator)))) =
     Rejected rate_limit_message" by blast
  from inst entry clocks
  have c: "fst (checkRateLimit (clock_rateLimit (env_at 1700000002000)) (utf16 ''laptop'') after_first) \<and>
   fst (processQuery (env_at 1700000002000) (utf16 ''laptop'') after_first) \<noteq>
     Rejected rate_limit_message" by blast
  from entry a first b c show ?thesis by blast
qed

text \<open>
  Three invocations with the raw key "laptop": the first is let through, the second, 1500
  ms later, is rejected, and the third, 1000 ms after the second, is let through and
  answered, because 2500 ms have passed since the first.
\<close>

theorem second_of_two_close_invocations_accepted:
  "fst (processQuery (env_at 1700000000000) (utf16 ''laptop'') new_orchestrator) =
     Resolved (laptop_result 1700000000000) \<and>
   fst (processQuery (env_at 1700000001500) (utf16 ''laptop'') after_first) =
     Rejected rate_limit_message \<and>
   (1700000002500::int) - 1700000001500 < 2000 \<and>
   fst (processQuery (env_at 1700000002500) (utf16 ''laptop'') after_denied) =
     Resolved (laptop_result 1700000000000)"
  by code_simp

section \<open>Scrape executor\<close>

text \<open>
  How often \<^verbatim>\<open>chrome.tabs.remove\<close> is called for the tab that was created: once when the
  tab loads and the injected script settles, and not at all otherwise.
\<close>

lemma performScraping_remove_count:
  "tabsCreate e = Inr tabId \<Longrightarrow>
   count_list (snd (performScraping e a)) (TabsRemove tabId) =
     (if tabLoads e \<and> (\<exists>r. executeScript e = ScriptSettles r) then 1 else 0)"
  by (auto simp: performScraping_def split: sum.splits script_outcome.splits option.splits)

text \<open>
  C1 at a failing run. The tab with id 7 is created and loads, and
  \<^verbatim>\<open>chrome.scripting.executeScript\<close> rejects. The scrape rejects with the wrapped
  message after two outside calls, creating the tab and running the script: the tab is
  never removed, where C1 wants it removed exactly once before the error escapes.
\<close>

theorem performScraping_script_failure_keeps_tab:
  "fallbackAnalysis (utf16 ''laptop'') = Inr laptop_analysis \<and>
   performScraping env_script_rejects laptop_analysis =
     (Rejected ''Scraping failed: Frame with ID 0 is showing error page'',
      [TabsCreate ''https://www.amazon.in/s?k=laptop'', ExecuteScript 7]) \<and>
   count_list (snd (performScraping env_script_rejects laptop_analysis)) (TabsRemove 7) = 0 \<and>
   count_list (snd (performScraping (env_at 1700000000000) laptop_analysis)) (TabsRemove 7) = 1"
  by code_simp

section \<open>Data extractor\<close>

text \<open>
  C6. For every scraping result whose data is non-empty, \<^verbatim>\<open>extractDataWithGemma\<close> returns
  a result with source "direct_scraping", the input data as \<^verbatim>\<open>extracted_data\<close> and its
  length as \<^verbatim>\<open>total_results\<close>, and makes no call to the inference endpoint (no outside
  call at all).
\<close>

theorem extractDataWithGemma_direct:
  "data sr \<noteq> [] \<Longrightarrow>
   source (fst (extractDataWithGemma e sr)) = ''direct_scraping'' \<and>
   extracted_data (fst (extractDataWithGemma e sr)) = data sr \<and>
   total_results (fst (extractDataWithGemma e sr)) = int (length (data sr)) \<and>
   snd (extractDataWithGemma e sr) = []"
  by (simp add: extractDataWithGemma_def extract_try_def direct_result_def)

theorem extractDataWithGemma_direct_witness:
  "data scrape_nonempty \<noteq> [] \<and>
   source (fst (extractDataWithGemma (env_at 1700000000000) scrape_nonempty)) =
     ''direct_scraping'' \<and>
   extracted_data (fst (extractDataWithGemma (env_at 1700000000000) scrape_nonempty)) =
     [item_example] \<and>
   total_results (fst (extractDataWithGemma (env_at 1700000000000) scrape_nonempty)) = 1 \<and>
   snd (extractDataWithGemma (env_at 1700000000000) scrape_nonempty) = []"
proof -
  have d: "data scrape_nonempty = [item_example]"
    by (simp add: scrape_nonempty_def)
  then have ne: "data scrape_nonempty \<noteq> []"
    by simp
  from extractDataWithGemma_direct [OF ne, of "env_at 1700000000000"] d ne
  show ?thesis by simp
qed

text \<open>
  C8. For every scraping result with empty data, \<^verbatim>\<open>extractDataWithGemma\<close> returns a value
  and throws nothing. Each failure of the AI path makes the \<^verbatim>\<open>try\<close> block throw: a
  rejected \<^verbatim>\<open>fetch\<close>, a status that is not ok, a body that is not JSON, an answer without
  a brace-delimited span, and a span that \<^verbatim>\<open>JSON.parse\<close> refuses. Whatever message the
  block throws, the result is the one with \<^verbatim>\<open>success\<close> false and source "fallback",
  carrying the empty scrape data, a \<^verbatim>\<open>total_results\<close> of 0 and that message, after the one
  call to the endpoint.
\<close>

theorem extractDataWithGemma_degrades:
  assumes "data sr = []"
  shows
  "(extractionFetch e = FetchRejects m \<longrightarrow> fst (extract_try e sr) = Inl m) \<and>
   (extractionFetch e = FetchResponds False status body \<longrightarrow>
      fst (extract_try e sr) = Inl (''Gemma extraction error: '' @ show_nat status)) \<and>
   (extractionFetch e = FetchResponds True status (JsonFails m) \<longrightarrow>
      fst (extract_try e sr) = Inl m) \<and>
   (extractionFetch e = FetchResponds True status (JsonFields r t) \<and>
    match_json (responseText r t) = None \<longrightarrow>
      fst (extract_try e sr) = Inl ''No valid JSON found in Gemma response'') \<and>
   (extractionFetch e = FetchResponds True status (JsonFields r t) \<and>
    match_json (responseText r t) = Some j \<and> parseExtraction e j = Inl m \<longrightarrow>
      fst (extract_try e sr) = Inl m) \<and>
   (fst (extract_try e sr) = Inl m \<longrightarrow>
      extractDataWithGemma e sr =
        (\<lparr>success = False, source = ''fallback'', ex_url = Some (sr_url sr),
          ex_strategy = Some (sr_strategy sr), extracted_data = [], total_results = 0,
          source_url = None, error = Some m, timestamp = clock_result e\<rparr>,
         [Fetch DataExtraction]))"
  using assms
  by (auto simp: extractDataWithGemma_def extract_try_def fallback_result_def
      split: prod.splits sum.splits)

theorem extractDataWithGemma_degrades_witness:
  "data scrape_empty = [] \<and>
   error (fst (extractDataWithGemma (env_at 1700000000000) scrape_empty)) =
     Some ''Failed to fetch'' \<and>
   error (fst (extractDataWithGemma env_http_error scrape_empty)) =
     Some ''Gemma extraction error: 500'' \<and>
   error (fst (extractDataWithGemma env_bad_body scrape_empty)) =
     Some ''Unexpected end of JSON input'' \<and>
   error (fst (extractDataWithGemma env_no_object scrape_empty)) =
     Some ''No valid JSON found in Gemma response'' \<and>
   error (fst (extractDataWithGemma env_unparsable scrape_empty)) =
     Some ''Unexpected token w in JSON at position 1'' \<and>
   source (fst (extractDataWithGemma env_http_error scrape_empty)) = ''fallback'' \<and>
   extracted_data (fst (extractDataWithGemma env_http_error scrape_empty)) = [] \<and>
   total_results (fst (extractDataWithGemma env_http_error scrape_empty)) = 0"
proof -
  have d: "data scrape_empty = []"
    by (simp add: scrape_empty_def)
  have h1: "extractionFetch (env_at 1700000000000) = FetchRejects ''Failed to fetch''"
    by (simp add: env_at_def)
  have h2: "extractionFetch env_http_error = FetchResponds False 500 (JsonFails [])"
    by (simp add: env_http_error_def env_at_def)
  have h3: "extractionFetch env_bad_body =
      FetchResponds True 200 (JsonFails ''Unexpected end of JSON input'')"
    by (simp add: env_bad_body_def env_at_def)
  have h4: "extractionFetch env_no_object =
      FetchResponds True 200 (JsonFields (Some ''I cannot tell.'') None) \<and>
      match_json (responseText (Some ''I cannot tell.'') None) = None"
    by code_simp
  have h5: "extractionFetch env_unparsable =
      FetchResponds True 200 (JsonFields (Some ''Sure: {website: amazon}'') None) \<and>
      match_json (responseText (Some ''Sure: {website: amazon}'') None) =
        Some ''{website: amazon}'' \<and>
      parseExtraction env_unparsable ''{website: amazon}'' =
        Inl ''Unexpected token w in JSON at position 1''"
    by code_simp
  have n: "show_nat 500 = ''500''"
    by code_simp
  have r1: "extractDataWithGemma (env_at 1700000000000) scrape_empty =
      (\<lparr>success = False, source = ''fallback'', ex_url = Some (sr_url scrape_empty),
        ex_strategy = Some (sr_strategy scrape_empty), extracted_data = [], total_results = 0,
        source_url = None, error = Some ''Failed to fetch'',
        timestamp = clock_result (env_at 1700000000000)\<rparr>, [Fetch DataExtraction])"
    using extractDataWithGemma_degrades [OF d, where e = "env_at 1700000000000"
        and m = "''Failed to fetch''"] h1
    by blast
  have r2: "extractDataWithGemma env_http_error scrape_empty =
      (\<lparr>success = False, source = ''fallback'', ex_url = Some (sr_url scrape_empty),
        ex_strategy = Some (sr_strategy scrape_empty), extracted_data = [], total_results = 0,
        source_url = None, error = Some ''Gemma extraction error: 500'',
        timestamp = clock_result env_http_error\<rparr>, [Fetch DataExtraction])"
    using extractDataWithGemma_degrades [OF d, where e = env_http_error
        and m = "''Gemma extraction error: 500''" and status = 500 and body = "JsonFails []"]
      h2 n
    by simp
  have r3: "extractDataWithGemma env_bad_body scrape_empty =
      (\<lparr>success = False, source = ''fallback'', ex_url = Some (sr_url scrape_empty),
        ex_strategy = Some (sr_strategy scrape_empty), extracted_data = [], total_results = 0,
        source_url = None, error = Some ''Unexpected end of JSON input'',
        timestamp = clock_result env_bad_body\<rparr>, [Fetch DataExtraction])"
    using extractDataWithGemma_degrades [OF d, where e = env_bad_body
        and m = "''Unexpected end of JSON input''" and status = 200] h3
    by blast
  have r4: "extractDataWithGemma env_no_object scrape_empty =
      (\<lparr>success = False, source = ''fallback'', ex_url = Some (sr_url scrape_empty),
        ex_strategy = Some (sr_strategy scrape_empty), extracted_data = [], total_results = 0,
        source_url = None, error = Some ''No valid JSON found in Gemma response'',
        timestamp = clock_result env_no_object\<rparr>, [Fetch DataExtraction])"
    using extractDataWithGemma_degrades [OF d, where e = env_no_object
        and m = "''No valid JSON found in Gemma response''" and status = 200
        and r = "Some ''I cannot tell.''" and t = None] h4
    by blast
  have r5: "extractDataWithGemma env_unparsable scrape_empty =
      (\<lparr>success = False, source = ''fallback'', ex_url = Some (sr_url scrape_empty),
        ex_strategy = Some (sr_strategy scrape_empty), extracted_data = [], total_results = 0,
        source_url = None, error = Some ''Unexpected token w in JSON at position 1'',
        timestamp = clock_result env_unparsable\<rparr>, [Fetch DataExtraction])"
    using extractDataWithGemma_degrades [OF d, where e = env_unparsable
        and m = "''Unexpected token w in JSON at position 1''" and status = 200
        and r = "Some ''Sure: {website: amazon}''" and t = None
        and j = "''{website: amazon}''"] h5
    by blast
  from d r1 r2 r3 r4 r5 show ?thesis
    by simp
qed

section \<open>Query pipeline\<close>

lemma processQuery_resolved_cached:
  "processQuery e q s = (Resolved r, s', tr) \<Longrightarrow> map_of (cache s') (cacheKey q) = Some r"
  by (cases "checkRateLimit (clock_rateLimit e) q s")
    (auto simp: processQuery_def Let_def update_conv'
      split: prod.splits option.splits completion.splits bool.splits sum.splits)

lemma processQuery_hit:
  "fst (checkRateLimit (clock_rateLimit e) q s) \<Longrightarrow>
   map_of (cache s) (cacheKey q) = Some r \<Longrightarrow>
   processQuery e q s =
     (Resolved r, s\<lparr>rateLimiter := AList.update q (clock_rateLimit e) (rateLimiter s)\<rparr>, [])"
  using checkRateLimit_pass[of "clock_rateLimit e" q s]
  by (cases "checkRateLimit (clock_rateLimit e) q s") (simp add: processQuery_def)

text \<open>
  C4, as the code has it. Let a first call of \<^verbatim>\<open>processQuery\<close> return a result, and let a
  second call, with a query of the same lowercased and trimmed form, come while that
  result is still the cache entry of the key. If the second call passes the rate limiter,
  which is asked first and under the raw query, it returns the result of the first call
  from the cache, makes no outside call (no analysis, no network call, no tab), and changes
  nothing but the rate limiter's timestamp for its raw query.
\<close>

theorem processQuery_cache_hit:
  assumes "processQuery e1 q1 s0 = (Resolved r, s1, tr1)"
    and "map_of (cache s2) (cacheKey q1) = map_of (cache s1) (cacheKey q1)"
    and "trim (toLowerCase q2) = trim (toLowerCase q1)"
    and "fst (checkRateLimit (clock_rateLimit e2) q2 s2)"
  shows "processQuery e2 q2 s2 =
     (Resolved r, s2\<lparr>rateLimiter := AList.update q2 (clock_rateLimit e2) (rateLimiter s2)\<rparr>,
      [])"
proof -
  from assms(1) have "map_of (cache s1) (cacheKey q1) = Some r"
    by (rule processQuery_resolved_cached)
  with assms(2) have "map_of (cache s2) (cacheKey q1) = Some r"
    by simp
  moreover from assms(3) have "cacheKey q2 = cacheKey q1"
    by (simp add: cacheKey_def)
  ultimately have "map_of (cache s2) (cacheKey q2) = Some r"
    by simp
  with assms(4) show ?thesis
    by (rule processQuery_hit)
qed

theorem processQuery_cache_hit_witness:
  "processQuery (env_at 1700000000000) (utf16 ''laptop'') new_orchestrator =
     (Resolved (laptop_result 1700000000000), after_first,
      [Fetch QueryAnalysis, TabsCreate ''https://www.amazon.in/s?k=laptop'',
       ExecuteScript 7, TabsRemove 7]) \<and>
   trim (toLowerCase (utf16 ''  Laptop '')) = trim (toLowerCase (utf16 ''laptop'')) \<and>
   fst (checkRateLimit (clock_rateLimit (env_at 1700000003000)) (utf16 ''  Laptop '') after_first) \<and>
   processQuery (env_at 1700000003000) (utf16 ''  Laptop '') after_first =
     (Resolved (laptop_result 1700000000000),
      after_first\<lparr>rateLimiter :=
        AList.update (utf16 ''  Laptop '') (clock_rateLimit (env_at 1700000003000))
          (rateLimiter after_first)\<rparr>,
      [])"
proof -
  have first: "processQuery (env_at 1700000000000) (utf16 ''laptop'') new_orchestrator =
     (Resolved (laptop_result 1700000000000), after_first,
      [Fetch QueryAnalysis, TabsCreate ''https://www.amazon.in/s?k=laptop'',
       ExecuteScript 7, TabsRemove 7])"
    by code_simp
  have same: "trim (toLowerCase (utf16 ''  Laptop '')) = trim (toLowerCase (utf16 ''laptop''))"
    by code_simp
  have pass: "fst (checkRateLimit (clock_rateLimit (env_at 1700000003000)) (utf16 ''  Laptop '')
      after_first)"
    by code_simp
  from first same pass processQuery_cache_hit [OF first refl same pass]
  show ?thesis by blast
qed

text \<open>
  The query "laptop" is answered and cached, asked again 3000 ms later and answered from
  the cache, and asked a third time 500 ms after that: the result is still cached, and the
  call is rejected with the rate-limit error instead of returning it.
\<close>

theorem cached_query_rejected_by_rate_limit:
  "fst (processQuery (env_at 1700000000000) (utf16 ''laptop'') new_orchestrator) =
     Resolved (laptop_result 1700000000000) \<and>
   processQuery (env_at 1700000003000) (utf16 ''laptop'') after_first =
     (Resolved (laptop_result 1700000000000), after_hit, []) \<and>
   map_of (cache after_hit) (cacheKey (utf16 ''laptop'')) = Some (laptop_result 1700000000000) \<and>
   fst (processQuery (env_at 1700000003500) (utf16 ''laptop'') after_hit) =
     Rejected rate_limit_message"
  by code_simp

lemma processQuery_messages:
  "fst (processQuery e q s) = Rejected m \<Longrightarrow>
   m = rate_limit_message \<or> m = uri_malformed \<or> (\<exists>m'. m = ''Scraping failed: '' @ m')"
  by (cases "checkRateLimit (clock_rateLimit e) q s")
    (auto simp: processQuery_def Let_def
      split: prod.splits option.splits completion.splits bool.splits sum.splits
      dest!: performScraping_message analyzeQueryWithGemma_message)

lemma processQuery_unsettled_cache:
  "fst (processQuery e q s) = Rejected m \<or> fst (processQuery e q s) = Pending \<Longrightarrow>
   cache (fst (snd (processQuery e q s))) = cache s"
  using checkRateLimit_frame[of "clock_rateLimit e" q s]
  by (cases "checkRateLimit (clock_rateLimit e) q s")
    (auto simp: processQuery_def Let_def
      split: prod.splits option.splits completion.splits bool.splits sum.splits)

lemma processQuery_degraded:
  assumes "fst (checkRateLimit (clock_rateLimit e) q s)"
    and "map_of (cache s) (cacheKey q) = None"
    and "fst (analyzeQueryWithGemma e q) = Inr a"
    and "fst (performScraping e a) = Resolved sr"
    and "fst (extract_try e sr) = Inl m"
  shows "fst (processQuery e q s) = Resolved (fallback_result e sr m)"
proof -
  from assms(1) have "checkRateLimit (clock_rateLimit e) q s =
      (True, s\<lparr>rateLimiter := AList.update q (clock_rateLimit e) (rateLimiter s)\<rparr>)"
    using checkRateLimit_pass [of "clock_rateLimit e" q s]
    by (cases "checkRateLimit (clock_rateLimit e) q s") simp
  with assms(2-5) show ?thesis
    by (cases "analyzeQueryWithGemma e q", cases "performScraping e a",
        cases "extract_try e sr")
      (simp add: processQuery_def Let_def extractDataWithGemma_def)
qed

text \<open>
  C9, as the code has it. If \<^verbatim>\<open>processQuery\<close> throws, which the rate-limit rejection, the
  analysis and the scrape can make it do, or never settles, the cache afterwards is the
  cache before: no entry is stored by a call that does not return a result. A failure of
  the extraction is not among these. It throws nothing out of the extraction stage: the
  result with \<^verbatim>\<open>success\<close> false, source "fallback" and the error message is returned, and,
  as every result that \<^verbatim>\<open>processQuery\<close> returns, it is the cache entry of the query
  afterwards.
\<close>

theorem processQuery_stores_returned_results_only:
  "(fst (processQuery e q s) = Rejected m \<or> fst (processQuery e q s) = Pending \<longrightarrow>
      cache (fst (snd (processQuery e q s))) = cache s) \<and>
   (fst (processQuery e q s) = Rejected m \<longrightarrow>
      m = rate_limit_message \<or> m = uri_malformed \<or> (\<exists>m'. m = ''Scraping failed: '' @ m')) \<and>
   (fst (checkRateLimit (clock_rateLimit e) q s) \<and> map_of (cache s) (cacheKey q) = None \<and>
    fst (analyzeQueryWithGemma e q) = Inr a \<and> fst (performScraping e a) = Resolved sr \<and>
    fst (extract_try e sr) = Inl m \<longrightarrow>
      fst (processQuery e q s) = Resolved (fallback_result e sr m)) \<and>
   (fst (processQuery e q s) = Resolved r \<longrightarrow>
      map_of (cache (fst (snd (processQuery e q s)))) (cacheKey q) = Some r)"
proof (intro conjI impI)
  assume "fst (processQuery e q s) = Rejected m \<or> fst (processQuery e q s) = Pending"
  then show "cache (fst (snd (processQuery e q s))) = cache s"
    by (rule processQuery_unsettled_cache)
next
  assume "fst (processQuery e q s) = Rejected m"
  then show "m = rate_limit_message \<or> m = uri_malformed \<or>
      (\<exists>m'. m = ''Scraping failed: '' @ m')"
    by (rule processQuery_messages)
next
  assume "fst (checkRateLimit (clock_rateLimit e) q s) \<and>
    map_of (cache s) (cacheKey q) = None \<and>
    fst (analyzeQueryWithGemma e q) = Inr a \<and> fst (performScraping e a) = Resolved sr \<and>
    fst (extract_try e sr) = Inl m"
  then show "fst (processQuery e q s) = Resolved (fallback_result e sr m)"
    by (simp add: processQuery_degraded)
next
  assume "fst (processQuery e q s) = Resolved r"
  then have "processQuery e q s =
      (Resolved r, fst (snd (processQuery e q s)), snd (snd (processQuery e q s)))"
    by (cases "processQuery e q s") auto
  then show "map_of (cache (fst (snd (processQuery e q s)))) (cacheKey q) = Some r"
    by (rule processQuery_resolved_cached)
qed

theorem processQuery_stores_returned_results_only_witness:
  "fst (processQuery (env_at 1700000001500) (utf16 ''laptop'') after_first) =
     Rejected rate_limit_message \<and>
   cache (fst (snd (processQuery (env_at 1700000001500) (utf16 ''laptop'') after_first))) =
     cache after_first \<and>
   fst (processQuery (env_at 1700000003000) half_emoji_query after_first) =
     Rejected uri_malformed \<and>
   cache (fst (snd (processQuery (env_at 1700000003000) half_emoji_query after_first))) =
     cache after_first \<and>
   fst (processQuery env_script_rejects (utf16 ''phone'') after_first) =
     Rejected ''Scraping failed: Frame with ID 0 is showing error page'' \<and>
   cache (fst (snd (processQuery env_script_rejects (utf16 ''phone'') after_first))) =
     cache after_first \<and>
   fst (processQuery env_empty_page (utf16 ''xyz'') after_first) =
     Resolved (fallback_result env_empty_page scrape_empty ''Failed to fetch'') \<and>
   map_of (cache (fst (snd (processQuery env_empty_page (utf16 ''xyz'') after_first))))
     (cacheKey (utf16 ''xyz'')) =
     Some (fallback_result env_empty_page scrape_empty ''Failed to fetch'')"
proof -
  have r1: "fst (processQuery (env_at 1700000001500) (utf16 ''laptop'') after_first) =
     Rejected rate_limit_message"
    by code_simp
  have r2: "fst (processQuery (env_at 1700000003000) half_emoji_query after_first) =
     Rejected uri_malformed"
    by code_simp
  have r3: "fst (processQuery env_script_rejects (utf16 ''phone'') after_first) =
     Rejected ''Scraping failed: Frame with ID 0 is showing error page''"
    by code_simp
  have h4: "fst (checkRateLimit (clock_rateLimit env_empty_page) (utf16 ''xyz'') after_first) \<and>
     map_of (cache after_first) (cacheKey (utf16 ''xyz'')) = None \<and>
     fst (analyzeQueryWithGemma env_empty_page (utf16 ''xyz'')) = Inr xyz_analysis \<and>
     fst (performScraping env_empty_page xyz_analysis) = Resolved scrape_empty \<and>
     fst (extract_try env_empty_page scrape_empty) = Inl ''Failed to fetch''"
    by code_simp
  note t1 = processQuery_stores_returned_results_only [where e = "env_at 1700000001500"
      and q = "utf16 ''laptop''" and s = after_first and m = rate_limit_message]
  note t2 = processQuery_stores_returned_results_only [where e = "env_at 1700000003000"
      and q = half_emoji_query and s = after_first and m = uri_malformed]
  note t3 = processQuery_stores_returned_results_only [where e = env_script_rejects
      and q = "utf16 ''phone''" and s = after_first
      and m = "''Scraping failed: Frame with ID 0 is showing error page''"]
  note t4 = processQuery_stores_returned_results_only [where e = env_empty_page
      and q = "utf16 ''xyz''" and s = after_first and a = xyz_analysis and sr = scrape_empty
      and m = "''Failed to fetch''"
      and r = "fallback_result env_empty_page scrape_empty ''Failed to fetch''"]
  from t1 r1
  have c1: "cache (fst (snd (processQuery (env_at 1700000001500) (utf16 ''laptop'')
      after_first))) = cache after_first"
    by blast
  from t2 r2
  have c2: "cache (fst (snd (processQuery (env_at 1700000003000) half_emoji_query
      after_first))) = cache after_first"
    by blast
  from t3 r3
  have c3: "cache (fst (snd (processQuery env_script_rejects (utf16 ''phone'')
      after_first))) = cache after_first"
    by blast
  from t4 h4
  have r4: "fst (processQuery env_empty_page (utf16 ''xyz'') after_first) =
     Resolved (fallback_result env_empty_page scrape_empty ''Failed to fetch'')"
    by blast
  with t4
  have c4: "map_of (cache (fst (snd (processQuery env_empty_page (utf16 ''xyz'') after_first))))
     (cacheKey (utf16 ''xyz'')) =
     Some (fallback_result env_empty_page scrape_empty ''Failed to fetch'')"
    by blast
  from r1 c1 r2 c2 r3 c3 r4 c4 show ?thesis
    by blast
qed

text \<open>
  The extraction fails (the page has no matching element and the endpoint is down). The
  pipeline returns the result that carries the error, and a second call, 3000 ms later,
  is served that same result from the cache without any outside call.
\<close>

theorem degraded_result_is_cached:
  "fst (processQuery env_empty_page (utf16 ''xyz'') new_orchestrator) =
     Resolved \<lparr>success = False, source = ''fallback'',
       ex_url = Some ''https://www.google.com/search?q=xyz'',
       ex_strategy = Some ''general_search'', extracted_data = [], total_results = 0,
       source_url = None, error = Some ''Failed to fetch'', timestamp = 1700000002400\<rparr> \<and>
   fst (processQuery (env_at 1700000003000) (utf16 ''xyz'')
          (fst (snd (processQuery env_empty_page (utf16 ''xyz'') new_orchestrator)))) =
     fst (processQuery env_empty_page (utf16 ''xyz'') new_orchestrator) \<and>
   snd (snd (processQuery (env_at 1700000003000) (utf16 ''xyz'')
          (fst (snd (processQuery env_empty_page (utf16 ''xyz'') new_orchestrator))))) = []"
  by code_simp

section \<open>Message handler\<close>

text \<open>
  C10, as the code has it. The \<^verbatim>\<open>clearCache\<close> action empties the cache and leaves the
  rate limiter and the active requests as they were, without an outside call. So a query
  issued again after the clear, less than 2000 ms after the last attempt with the same
  raw key that passed the rate limiter (whose time is the rate limiter's entry, the clock
  being after the epoch), is rejected with the rate-limit error and starts no pipeline.
\<close>

theorem clearCache_keeps_rate_limiter:
  assumes "req_action req = ''clearCache''"
  shows "cache (fst (snd (handleMessage e req s))) = [] \<and>
     rateLimiter (fst (snd (handleMessage e req s))) = rateLimiter s \<and>
     activeRequests (fst (snd (handleMessage e req s))) = activeRequests s \<and>
     snd (snd (handleMessage e req s)) = [] \<and>
     (map_of (rateLimiter s) q = Some t \<and> t \<noteq> 0 \<and> clock_rateLimit e2 - t < 2000 \<longrightarrow>
        fst (processQuery e2 q (fst (snd (handleMessage e req s)))) =
          Rejected rate_limit_message \<and>
        snd (snd (processQuery e2 q (fst (snd (handleMessage e req s))))) = [])"
proof -
  from assms have st: "fst (snd (handleMessage e req s)) = s\<lparr>cache := []\<rparr>"
    and tr: "snd (snd (handleMessage e req s)) = []"
    by (simp_all add: handleMessage_def)
  have "fst (processQuery e2 q (s\<lparr>cache := []\<rparr>)) = Rejected rate_limit_message \<and>
      snd (snd (processQuery e2 q (s\<lparr>cache := []\<rparr>))) = []"
    if "map_of (rateLimiter s) q = Some t \<and> t \<noteq> 0 \<and> clock_rateLimit e2 - t < 2000"
  proof -
    from that have "\<not> fst (checkRateLimit (clock_rateLimit e2) q (s\<lparr>cache := []\<rparr>))"
      by (simp add: checkRateLimit_deny_iff)
    then show ?thesis
      by (simp add: processQuery_denied)
  qed
  with st tr show ?thesis
    by simp
qed

theorem clearCache_keeps_rate_limiter_witness:
  "req_action clearCache_request = ''clearCache'' \<and>
   map_of (rateLimiter after_hit) (utf16 ''laptop'') = Some 1700000003000 \<and>
   cache (fst (snd (handleMessage (env_at 1700000003200) clearCache_request after_hit))) = [] \<and>
   rateLimiter (fst (snd (handleMessage (env_at 1700000003200) clearCache_request after_hit)))
     = rateLimiter after_hit \<and>
   fst (processQuery (env_at 1700000003500) (utf16 ''laptop'')
     (fst (snd (handleMessage (env_at 1700000003200) clearCache_request after_hit)))) =
     Rejected rate_limit_message"
proof -
  have a: "req_action clearCache_request = ''clearCache''"
    by (simp add: clearCache_request_def)
  have entry: "map_of (rateLimiter after_hit) (utf16 ''laptop'') = Some 1700000003000"
    by code_simp
  have close: "(1700000003000::int) \<noteq> 0 \<and>
      clock_rateLimit (env_at 1700000003500) - 1700000003000 < 2000"
    by (simp add: env_at_def)
  from a entry close
    clearCache_keeps_rate_limiter [OF a, where e = "env_at 1700000003200" and s = after_hit
      and q = "utf16 ''laptop''" and t = 1700000003000 and ?e2.0 = "env_at 1700000003500"]
  show ?thesis by blast
qed

text \<open>
  The query "laptop" is cached; its last attempt, at 1700000004500, is rejected by the
  rate limiter, its last attempt that passed being 1500 ms older. After the cache is
  cleared, the query is issued again 700 ms after the last attempt: it is let through,
  and the whole pipeline runs, tab included.
\<close>

theorem reissue_after_denied_attempt_runs_pipeline:
  "map_of (cache after_hit) (cacheKey (utf16 ''laptop'')) = Some (laptop_result 1700000000000) \<and>
   fst (processQuery (env_at 1700000004500) (utf16 ''laptop'') after_hit) =
     Rejected rate_limit_message \<and>
   cache after_clear = [] \<and>
   (1700000005200::int) - 1700000004500 < 2000 \<and>
   fst (processQuery (env_at 1700000005200) (utf16 ''laptop'') after_clear) =
     Resolved (laptop_result 1700000005200) \<and>
   snd (snd (processQuery (env_at 1700000005200) (utf16 ''laptop'') after_clear)) =
     [Fetch QueryAnalysis, TabsCreate ''https://www.amazon.in/s?k=laptop'',
      ExecuteScript 7, TabsRemove 7]"
  by code_simp

end
